theory Spec2Isabelle
  imports Main "HOL-Library.Sublist" "HOL-Library.AList"
begin

section \<open>Python strings and text files\<close>

text \<open>
  The handlers of \<^verbatim>\<open>nb_cli/handlers.py\<close> are embedded as functions on an explicit
  world. Python strings are character lists; a text file is the string that Python's text
  mode shows the program (line terminators already translated to \<^verbatim>\<open>\n\<close>).
\<close>

abbreviation newline :: char where
  "newline \<equiv> CHR 0x0A"

abbreviation dquote :: char where
  "dquote \<equiv> CHR 0x22"

definition startswith :: "string \<Rightarrow> string \<Rightarrow> bool" where
  \<comment> \<open>\<^verbatim>\<open>s.startswith(p)\<close>\<close>
  "startswith s p \<longleftrightarrow> take (length p) s = p"

fun readlines :: "string \<Rightarrow> string list" where
  \<comment> \<open>\<^verbatim>\<open>f.readlines()\<close>: every line keeps its terminator; the last one may have none.\<close>
  "readlines [] = []"
| "readlines (c # cs) =
     (if c = newline then [c] # readlines cs
      else (case readlines cs of [] \<Rightarrow> [[c]] | l # ls \<Rightarrow> (c # l) # ls))"

definition writelines :: "string list \<Rightarrow> string" where
  \<comment> \<open>\<^verbatim>\<open>f.writelines(lines)\<close> on a freshly truncated file: the strings one after another,
      nothing added between them.\<close>
  "writelines ls = concat ls"


definition is_space :: "char \<Rightarrow> bool" where
  \<comment> \<open>The ASCII characters that \<^verbatim>\<open>str.strip\<close> removes.\<close>
  "is_space c \<longleftrightarrow> c \<in> set [CHR '' '', CHR 0x09, CHR 0x0A, CHR 0x0B, CHR 0x0C, CHR 0x0D,
                              CHR 0x1C, CHR 0x1D, CHR 0x1E, CHR 0x1F]"

definition lstrip :: "string \<Rightarrow> string" where
  "lstrip s = dropWhile is_space s"

definition strip :: "string \<Rightarrow> string" where
  "strip s = rev (dropWhile is_space (rev (dropWhile is_space s)))"

definition lower :: "string \<Rightarrow> string" where
  \<comment> \<open>\<^verbatim>\<open>str.lower\<close> on ASCII letters.\<close>
  "lower s = map (\<lambda>c. let n = (of_char c :: nat) in
                       if 65 \<le> n \<and> n \<le> 90 then char_of (n + 32) else c) s"

definition replace_char :: "char \<Rightarrow> char \<Rightarrow> string \<Rightarrow> string" where
  \<comment> \<open>\<^verbatim>\<open>s.replace(a, b)\<close> for one-character \<^verbatim>\<open>a\<close> and \<^verbatim>\<open>b\<close>.\<close>
  "replace_char a b s = map (\<lambda>c. if c = a then b else c) s"

definition rfind :: "string \<Rightarrow> char \<Rightarrow> int" where
  \<comment> \<open>\<^verbatim>\<open>s.rfind(c)\<close>: the last index of \<^verbatim>\<open>c\<close>, or -1.\<close>
  "rfind s c = (if c \<in> set s
                then int (length s) - 1 - int (length (takeWhile (\<lambda>x. x \<noteq> c) (rev s)))
                else - 1)"

definition splitext :: "string \<Rightarrow> string \<times> string" where
  \<comment> \<open>\<^verbatim>\<open>os.path.splitext\<close> (POSIX): split at the last dot of the last path component,
      unless that component has only dots before it.\<close>
  "splitext p =
     (let sepIndex = rfind p CHR ''/''; dotIndex = rfind p CHR ''.''
      in if dotIndex > sepIndex \<and>
            (\<exists>c \<in> set (drop (nat (sepIndex + 1)) (take (nat dotIndex) p)). c \<noteq> CHR ''.'')
         then (take (nat dotIndex) p, drop (nat dotIndex) p)
         else (p, []))"

section \<open>Python values, errors and dictionaries\<close>

datatype error = ValueError | AttributeError | TypeError | KeyError | ModuleNotFoundError
  | FileNotFoundError

text \<open>
  The callables stored in the menu of \<^verbatim>\<open>handle_no_subcommand\<close>: four handlers and
  \<^verbatim>\<open>functools.partial\<close> objects of \<^verbatim>\<open>_call_docker_compose\<close>, which bind the command
  and may or may not bind the argument list.
\<close>

datatype callable = DrawLogo | CreateProject | RunBot | CreatePlugin
  | ComposePartial string "string list option"

datatype pyval = PyNone | PyBool bool | PyInt int | PyStr string | PyFun callable
  | PyObj bool  \<comment> \<open>any other object, with the value of \<^verbatim>\<open>bool(obj)\<close>\<close>

fun truthy :: "pyval \<Rightarrow> bool" where
  "truthy PyNone = False"
| "truthy (PyBool b) = b"
| "truthy (PyInt i) = (i \<noteq> 0)"
| "truthy (PyStr s) = (s \<noteq> [])"
| "truthy (PyFun c) = True"
| "truthy (PyObj b) = b"

type_synonym dict = "(string \<times> pyval) list"

definition keys :: "dict \<Rightarrow> string set" where
  "keys d = set (map fst d)"

definition dict_get :: "dict \<Rightarrow> string \<Rightarrow> pyval" where
  \<comment> \<open>\<^verbatim>\<open>d.get(k)\<close>\<close>
  "dict_get d k = (case map_of d k of None \<Rightarrow> PyNone | Some v \<Rightarrow> v)"

fun list_index :: "'a list \<Rightarrow> 'a \<Rightarrow> error + nat" where
  \<comment> \<open>\<^verbatim>\<open>xs.index(y)\<close> raises ValueError when \<^verbatim>\<open>y\<close> is not in the list.\<close>
  "list_index [] y = Inl ValueError"
| "list_index (x # xs) y =
     (if x = y then Inr 0
      else (case list_index xs y of Inl e \<Rightarrow> Inl e | Inr i \<Rightarrow> Inr (Suc i)))"

definition list_insert :: "nat \<Rightarrow> 'a \<Rightarrow> 'a list \<Rightarrow> 'a list" where
  \<comment> \<open>\<^verbatim>\<open>xs.insert(i, y)\<close> for \<^verbatim>\<open>i \<ge> 0\<close>: an index beyond the end appends.\<close>
  "list_insert i y xs = take i xs @ [y] @ drop i xs"

section \<open>Questions, events and the world\<close>

datatype qtype = Input | ListQ | Confirm

record question =
  qtype :: qtype
  qname :: string
  message :: string
  validate :: "(string \<Rightarrow> bool) option"
  choices :: "(dict \<Rightarrow> error + string list) option"
  qfilter :: "(pyval \<Rightarrow> error + pyval) option"
  default :: "pyval option"

datatype color = Red | Green | Yellow | Cyan

datatype msg = Plain string
  | MissingKeys "string set"
    \<comment> \<open>\<^verbatim>\<open>f"Error Input! Missing {list(s)}"\<close> for a set \<^verbatim>\<open>s\<close> (its order is Python's)\<close>

datatype template = ProjectTemplate | PluginTemplate

datatype event =
    Secho msg "color option" bool  \<comment> \<open>\<^verbatim>\<open>click.secho(text, fg, bold)\<close>\<close>
  | Echo string
  | Prompt "question list" dict  \<comment> \<open>the questions shown and the AnswerSet returned\<close>
  | Cookiecutter template "pyval option" dict
      \<comment> \<open>template root, \<^verbatim>\<open>output_dir\<close>, \<^verbatim>\<open>extra_context\<close> (\<^verbatim>\<open>no_input=True\<close>)\<close>
  | NonebotRun "string option"  \<comment> \<open>\<^verbatim>\<open>nonebot.run(app=...)\<close>\<close>
  | ComposeParse "string list"
  | SetupConsoleHandler pyval pyval pyval
  | SetupParallelLogger pyval
  | PerformCommand dict nat dict

record world =
  files :: "string \<rightharpoonup> string"  \<comment> \<open>regular files by path, with their text\<close>
  dirs :: "string list"  \<comment> \<open>the paths that are directories\<close>
  listing :: "string list"
    \<comment> \<open>the paths below the current directory, as a recursive walk yields them\<close>
  trace :: "event list"  \<comment> \<open>what the handlers did to their collaborators, in order\<close>

definition isfile :: "world \<Rightarrow> string \<Rightarrow> bool" where
  "isfile w p \<longleftrightarrow> files w p \<noteq> None"

definition is_dir :: "world \<Rightarrow> string \<Rightarrow> bool" where
  "is_dir w p \<longleftrightarrow> p \<in> set (dirs w)"

definition log :: "event \<Rightarrow> world \<Rightarrow> world" where
  "log e w = w\<lparr>trace := trace w @ [e]\<rparr>"

definition secho :: "msg \<Rightarrow> color option \<Rightarrow> bool \<Rightarrow> world \<Rightarrow> world" where
  "secho t fg bold w = log (Secho t fg bold) w"

datatype reply = Answer pyval | Skip | Cancel

text \<open>
  The external collaborators: the user in front of the prompt, pip (\<^verbatim>\<open>pipmain\<close> as
  \<^verbatim>\<open>pip._internal\<close> provides it), the import system, figlet and docker-compose. Pip and an
  import run foreign code, so they transform the world. The template engine and the run
  loop of the framework are calls recorded in the trace: \<^verbatim>\<open>cookiecutter\<close> writes its file
  tree outside the model, and \<^verbatim>\<open>nonebot.run\<close> is taken to return.
\<close>

record ext =
  user :: "question \<Rightarrow> dict \<Rightarrow> reply"
  pipmain :: "string list \<Rightarrow> world \<Rightarrow> int \<times> world"
  import_module :: "string \<Rightarrow> world \<Rightarrow> (error + (string \<rightharpoonup> pyval)) \<times> world"
  figlet_format :: "string \<Rightarrow> string \<Rightarrow> string"
  docopt_parse :: "string list \<Rightarrow> dict \<times> nat \<times> dict"
  set_no_color_if_clicolor :: "pyval \<Rightarrow> pyval"
  perform_command :: "dict \<Rightarrow> nat \<Rightarrow> dict \<Rightarrow> pyval"

type_synonym outcome = "(error + pyval) \<times> world"


section \<open>The interactive prompt\<close>

text \<open>
  \<^verbatim>\<open>PyInquirer.prompt\<close> is an external library. Its contract, as the handlers rely on it:
  the questions are asked in order; the choices of a question may be computed from the
  answers so far; an answer is stored under the question's name after the question's
  filter is applied; a question left without an answer stores nothing; a cancelled prompt
  returns the empty AnswerSet; an exception in a choices function or in a filter ends the
  prompt. Only a validated answer can be submitted, so a reply that the question does not
  accept ends the prompt like a cancel. The user is a function from the question shown and
  the answers so far to a reply. The presentation arguments \<^verbatim>\<open>qmark\<close> and \<^verbatim>\<open>style\<close> are
  left out.
\<close>

definition acceptable :: "question \<Rightarrow> string list \<Rightarrow> pyval \<Rightarrow> bool" where
  "acceptable q shown a =
     (case a of
        PyStr s \<Rightarrow>
          (case qtype q of
             Input \<Rightarrow> (case validate q of None \<Rightarrow> True | Some v \<Rightarrow> v s)
           | ListQ \<Rightarrow> s \<in> set shown
           | Confirm \<Rightarrow> False)
      | PyBool b \<Rightarrow> qtype q = Confirm
      | _ \<Rightarrow> False)"

fun ask :: "(question \<Rightarrow> dict \<Rightarrow> reply) \<Rightarrow> question list \<Rightarrow> dict \<Rightarrow> error + dict" where
  "ask u [] answers = Inr answers"
| "ask u (q # qs) answers =
     (case (case choices q of None \<Rightarrow> Inr [] | Some f \<Rightarrow> f answers) of
        Inl e \<Rightarrow> Inl e
      | Inr shown \<Rightarrow>
          (case u q answers of
             Cancel \<Rightarrow> Inr []
           | Skip \<Rightarrow> ask u qs answers
           | Answer a \<Rightarrow>
               if \<not> acceptable q shown a then Inr []
               else (case (case qfilter q of None \<Rightarrow> Inr a | Some f \<Rightarrow> f a) of
                       Inl e \<Rightarrow> Inl ValueError
                     | Inr v \<Rightarrow> ask u qs (AList.update (qname q) v answers))))"

definition prompt :: "ext \<Rightarrow> question list \<Rightarrow> world \<Rightarrow> (error + dict) \<times> world" where
  "prompt x qs w =
     (case ask (user x) qs [] of
        Inl e \<Rightarrow> (Inl e, w)
      | Inr answers \<Rightarrow> (Inr answers, log (Prompt qs answers) w))"

section \<open>Installing a plugin\<close>

definition call_pip_install :: "ext \<Rightarrow> string \<Rightarrow> string \<Rightarrow> world \<Rightarrow> int \<times> world" where
  \<comment> \<open>\<^verbatim>\<open>_call_pip_install\<close>\<close>
  "call_pip_install x package index w = pipmain x [''install'', ''-i'', index, package] w"

definition is_anchor :: "string \<Rightarrow> bool" where
  \<comment> \<open>the lambda of \<^verbatim>\<open>install_plugin\<close>, applied to a line as read\<close>
  "is_anchor l \<longleftrightarrow> startswith l ''nonebot.load'' \<or> startswith l ''nonebot.init''"

definition load_statement :: "string \<Rightarrow> string" where
  \<comment> \<open>\<^verbatim>\<open>f"nonebot.load_plugin(\"nonebot_plugin_{package}\")\n"\<close>\<close>
  "load_statement package =
     ''nonebot.load_plugin('' @ [dquote] @ ''nonebot_plugin_'' @ package @ [dquote] @ '')''
       @ [newline]"

definition insert_index :: "string list \<Rightarrow> error + nat" where
  \<comment> \<open>\<^verbatim>\<open>len(lines) - list(map(..., lines[::-1])).index(True)\<close>\<close>
  "insert_index lines =
     (case list_index (map is_anchor (rev lines)) True of
        Inl e \<Rightarrow> Inl e
      | Inr j \<Rightarrow> Inr (length lines - j))"

definition open_read :: "world \<Rightarrow> string \<Rightarrow> error + string" where
  \<comment> \<open>\<^verbatim>\<open>open(file, "r")\<close> and reading it whole\<close>
  "open_read w p = (case files w p of None \<Rightarrow> Inl FileNotFoundError | Some content \<Rightarrow> Inr content)"

definition open_write :: "string \<Rightarrow> string \<Rightarrow> world \<Rightarrow> world" where
  \<comment> \<open>\<^verbatim>\<open>open(file, "w")\<close>, writing the text and closing\<close>
  "open_write p content w = w\<lparr>files := (files w)(p \<mapsto> content)\<rparr>"

definition install_plugin :: "ext \<Rightarrow> string \<Rightarrow> string \<Rightarrow> string \<Rightarrow> world \<Rightarrow> outcome" where
  "install_plugin x package file index w =
     (case call_pip_install x (''nonebot_plugin_'' @ package) index w of
        (status, w1) \<Rightarrow>
          if status = 0 \<and> isfile w1 file then
            (case open_read w1 file of
               Inl e \<Rightarrow> (Inl e, w1)
             | Inr content \<Rightarrow>
                 (let lines = readlines content
                  in case insert_index lines of
                       Inl e \<Rightarrow> (Inl e, w1)
                     | Inr i \<Rightarrow>
                         (Inr PyNone,
                          open_write file
                            (writelines (list_insert i (load_statement package) lines)) w1)))
          else if status = 0 then
            (Inr PyNone,
             secho (Plain (''Cannot find '' @ file @ '' in current folder!'')) (Some Red) False w1)
          else (Inr PyNone, w1))"

section \<open>Running the bot\<close>

definition draw_logo :: "ext \<Rightarrow> world \<Rightarrow> world" where
  "draw_logo x w = secho (Plain (strip (figlet_format x ''NoneBot'' ''basic''))) (Some Cyan) True w"

definition getattr :: "(string \<rightharpoonup> pyval) \<Rightarrow> string \<Rightarrow> error + pyval" where
  \<comment> \<open>\<^verbatim>\<open>getattr(module, name)\<close> with no default\<close>
  "getattr module a = (case module a of None \<Rightarrow> Inl AttributeError | Some v \<Rightarrow> Inr v)"

definition nonebot_run :: "string option \<Rightarrow> world \<Rightarrow> world" where
  "nonebot_run app w = log (NonebotRun app) w"

definition run_bot :: "ext \<Rightarrow> string \<Rightarrow> string \<Rightarrow> world \<Rightarrow> outcome" where
  "run_bot x file app w =
     (if \<not> isfile w file then
        (Inr PyNone,
         secho (Plain (''Cannot find '' @ file @ '' in current folder!'')) (Some Red) False w)
      else
        (let module_name = fst (splitext file)
         in case import_module x module_name w of
              (Inl e, w1) \<Rightarrow> (Inl e, w1)
            | (Inr module, w1) \<Rightarrow>
                (case getattr module app of
                   Inl e \<Rightarrow> (Inl e, w1)
                 | Inr app_value \<Rightarrow>
                     if \<not> truthy app_value then
                       (Inr PyNone,
                        nonebot_run None
                          (secho (Plain ''Cannot find an asgi server. Add `app = nonebot.get_asgi()` to enable reload mode.'')
                             None False w1))
                     else (Inr PyNone, nonebot_run (Some (module_name @ '':'' @ app)) w1))))"

section \<open>Creating a project\<close>

definition cookiecutter :: "template \<Rightarrow> pyval option \<Rightarrow> dict \<Rightarrow> world \<Rightarrow> world" where
  "cookiecutter t output_dir extra_context w = log (Cookiecutter t output_dir extra_context) w"

definition project_choices :: "dict \<Rightarrow> error + string list" where
  \<comment> \<open>the \<^verbatim>\<open>choices\<close> lambda of the second question\<close>
  "project_choices ctx =
     (case map_of ctx ''project_name'' of
        None \<Rightarrow> Inl KeyError
      | Some (PyStr n) \<Rightarrow>
          Inr [''1) In a '' @ [dquote]
                 @ replace_char CHR ''-'' CHR ''_'' (replace_char CHR '' '' CHR ''-'' (lower n))
                 @ [dquote] @ '' folder'',
               ''2) In a '' @ [dquote] @ ''src'' @ [dquote] @ '' folder'']
      | Some _ \<Rightarrow> Inl AttributeError)"

definition project_question :: "question list" where
  "project_question =
     [\<lparr>qtype = Input, qname = ''project_name'', message = ''Project Name:'',
       validate = Some (\<lambda>x. length x > 0), choices = None, qfilter = None, default = None\<rparr>,
      \<lparr>qtype = ListQ, qname = ''use_src'', message = ''Where to store the plugin?'',
       validate = None, choices = Some project_choices,
       qfilter = Some (\<lambda>v. case v of PyStr s \<Rightarrow> Inr (PyBool (startswith s ''2''))
                                   | _ \<Rightarrow> Inl AttributeError),
       default = None\<rparr>,
      \<lparr>qtype = Confirm, qname = ''load_builtin'', message = ''Load NoneBot Builtin Plugin?'',
       validate = None, choices = None, qfilter = None, default = Some (PyBool False)\<rparr>]"

definition create_project :: "ext \<Rightarrow> world \<Rightarrow> outcome" where
  "create_project x w =
     (let question = project_question;
          ks = set (map qname question)
      in case prompt x question w of
           (Inl e, w1) \<Rightarrow> (Inl e, w1)
         | (Inr answers, w1) \<Rightarrow>
             if ks \<noteq> keys answers then
               (Inr PyNone, secho (MissingKeys (ks - keys answers)) (Some Red) False w1)
             else (Inr PyNone, cookiecutter ProjectTemplate None answers w1))"

section \<open>The compose proxy\<close>

definition call_docker_compose :: "ext \<Rightarrow> string \<Rightarrow> string list \<Rightarrow> world \<Rightarrow> outcome" where
  \<comment> \<open>\<^verbatim>\<open>_call_docker_compose\<close>\<close>
  "call_docker_compose x command args w =
     (case docopt_parse x (command # args) of
        (options, handler, command_options) \<Rightarrow>
          (let w1 = log (ComposeParse (command # args)) w;
               w2 = log (SetupConsoleHandler (dict_get options ''--verbose'')
                          (set_no_color_if_clicolor x (dict_get options ''--no-ansi''))
                          (dict_get options ''--log-level'')) w1;
               w3 = log (SetupParallelLogger
                          (set_no_color_if_clicolor x (dict_get options ''--no-ansi''))) w2;
               command_options1 =
                 (if truthy (dict_get options ''--no-ansi'')
                  then AList.update ''--no-color'' (PyBool True) command_options
                  else command_options)
           in (Inr (perform_command x options handler command_options1),
               log (PerformCommand options handler command_options1) w3)))"

section \<open>Creating a plugin\<close>

definition basename :: "string \<Rightarrow> string" where
  "basename p = rev (takeWhile (\<lambda>c. c \<noteq> CHR ''/'') (rev p))"

definition glob_plugins :: "world \<Rightarrow> string list" where
  \<comment> \<open>\<^verbatim>\<open>Path(".").glob("**/plugins/")\<close>, each path as \<^verbatim>\<open>str\<close> prints it: the walked
      paths whose last component is \<^verbatim>\<open>plugins\<close>\<close>
  "glob_plugins w = filter (\<lambda>p. basename p = ''plugins'') (listing w)"

definition error_input :: "world \<Rightarrow> world" where
  "error_input w = secho (Plain ''Error Input!'') (Some Red) False w"

definition plugin_name_question :: question where
  "plugin_name_question =
     \<lparr>qtype = Input, qname = ''plugin_name'', message = ''Plugin Name:'',
      validate = Some (\<lambda>x. length x > 0), choices = None, qfilter = None, default = None\<rparr>"

definition detected :: "world \<Rightarrow> string list" where
  \<comment> \<open>\<^verbatim>\<open>list(map(str, [*filter(lambda x: x.is_dir(), ...), "Other"]))\<close>\<close>
  "detected w = filter (is_dir w) (glob_plugins w) @ [''Other'']"

definition plugin_dir_list_question :: "world \<Rightarrow> question" where
  "plugin_dir_list_question w =
     \<lparr>qtype = ListQ, qname = ''plugin_dir'', message = ''Where to store the plugin?'',
      validate = None, choices = Some (\<lambda>ctx. Inr (detected w)), qfilter = None,
      default = None\<rparr>"

definition plugin_dir_input_question :: "world \<Rightarrow> question" where
  "plugin_dir_input_question w =
     \<lparr>qtype = Input, qname = ''plugin_dir'', message = ''Plugin Dir:'',
      validate = Some (\<lambda>x. length x > 0 \<and> is_dir w x), choices = None, qfilter = None,
      default = None\<rparr>"

definition path_is_dir :: "world \<Rightarrow> pyval \<Rightarrow> error + bool" where
  \<comment> \<open>\<^verbatim>\<open>Path(v).is_dir()\<close>: \<^verbatim>\<open>Path\<close> takes a string\<close>
  "path_is_dir w v = (case v of PyStr s \<Rightarrow> Inr (is_dir w s) | _ \<Rightarrow> Inl TypeError)"

definition generate_plugin :: "pyval \<Rightarrow> pyval \<Rightarrow> world \<Rightarrow> outcome" where
  \<comment> \<open>the final \<^verbatim>\<open>cookiecutter\<close> call of \<^verbatim>\<open>create_plugin\<close>\<close>
  "generate_plugin name plugin_dir w =
     (Inr PyNone, cookiecutter PluginTemplate (Some plugin_dir) [(''plugin_name'', name)] w)"

definition ask_plugin_dir :: "ext \<Rightarrow> pyval \<Rightarrow> world \<Rightarrow> outcome" where
  \<comment> \<open>the manual \<^verbatim>\<open>Plugin Dir:\<close> prompt, used after \<^verbatim>\<open>Other\<close> and after a bad argument\<close>
  "ask_plugin_dir x name w =
     (case prompt x [plugin_dir_input_question w] w of
        (Inl e, w1) \<Rightarrow> (Inl e, w1)
      | (Inr answers, w1) \<Rightarrow>
          (case map_of answers ''plugin_dir'' of
             None \<Rightarrow> (Inr PyNone, error_input w1)
           | Some d \<Rightarrow> generate_plugin name d w1))"

definition choose_plugin_dir :: "ext \<Rightarrow> pyval \<Rightarrow> pyval \<Rightarrow> world \<Rightarrow> outcome" where
  \<comment> \<open>\<^verbatim>\<open>create_plugin\<close> from \<^verbatim>\<open>if not plugin_dir:\<close> on, the name being settled\<close>
  "choose_plugin_dir x name plugin_dir w =
     (if \<not> truthy plugin_dir then
        (case prompt x [plugin_dir_list_question w] w of
           (Inl e, w1) \<Rightarrow> (Inl e, w1)
         | (Inr answers, w1) \<Rightarrow>
             (case map_of answers ''plugin_dir'' of
                None \<Rightarrow> (Inr PyNone, error_input w1)
              | Some d \<Rightarrow>
                  if d = PyStr ''Other'' then ask_plugin_dir x name w1
                  else generate_plugin name d w1))
      else
        (case path_is_dir w plugin_dir of
           Inl e \<Rightarrow> (Inl e, w)
         | Inr True \<Rightarrow> generate_plugin name plugin_dir w
         | Inr False \<Rightarrow>
             ask_plugin_dir x name
               (secho (Plain ''Plugin Dir is not a directory!'') (Some Yellow) False w)))"

definition create_plugin :: "ext \<Rightarrow> pyval \<Rightarrow> pyval \<Rightarrow> world \<Rightarrow> outcome" where
  "create_plugin x name plugin_dir w =
     (if \<not> truthy name then
        (case prompt x [plugin_name_question] w of
           (Inl e, w1) \<Rightarrow> (Inl e, w1)
         | (Inr answers, w1) \<Rightarrow>
             (case map_of answers ''plugin_name'' of
                None \<Rightarrow> (Inr PyNone, error_input w1)
              | Some n \<Rightarrow> choose_plugin_dir x n plugin_dir w1))
      else choose_plugin_dir x name plugin_dir w)"

section \<open>The menu\<close>

definition menu :: "(string \<times> callable) list" where
  \<comment> \<open>the \<^verbatim>\<open>choices\<close> dictionary of \<^verbatim>\<open>handle_no_subcommand\<close>, in insertion order\<close>
  "menu =
     [(''Show Logo'', DrawLogo),
      (''Create a New Project'', CreateProject),
      (''Run the Bot in Current Folder'', RunBot),
      (''Build Docker Image for the Bot'', ComposePartial ''build'' (Some [])),
      (''Deploy the Bot to Docker'', ComposePartial ''up'' (Some [''-d''])),
      (''Stop the Bot Container in Docker'', ComposePartial ''down'' None),
      (''Create a New NoneBot Plugin'', CreatePlugin)]"

definition call :: "ext \<Rightarrow> callable \<Rightarrow> world \<Rightarrow> outcome" where
  \<comment> \<open>calling a menu entry with no argument: the handlers take their defaults, and a partial
      that left the required parameter \<^verbatim>\<open>args\<close> unbound raises TypeError\<close>
  "call x c w =
     (case c of
        DrawLogo \<Rightarrow> (Inr PyNone, draw_logo x w)
      | CreateProject \<Rightarrow> create_project x w
      | RunBot \<Rightarrow> run_bot x ''bot.py'' ''app'' w
      | CreatePlugin \<Rightarrow> create_plugin x PyNone PyNone w
      | ComposePartial command None \<Rightarrow> (Inl TypeError, w)
      | ComposePartial command (Some args) \<Rightarrow> call_docker_compose x command args w)"

definition call_value :: "ext \<Rightarrow> pyval \<Rightarrow> world \<Rightarrow> outcome" where
  \<comment> \<open>\<^verbatim>\<open>v()\<close>\<close>
  "call_value x v w = (case v of PyFun c \<Rightarrow> call x c w | _ \<Rightarrow> (Inl TypeError, w))"

definition menu_question :: question where
  "menu_question =
     \<lparr>qtype = ListQ, qname = ''subcommand'', message = ''What do you want to do?'',
      validate = None, choices = Some (\<lambda>ctx. Inr (map fst menu)),
      qfilter = Some (\<lambda>v. case v of
                            PyStr s \<Rightarrow> (case map_of menu s of None \<Rightarrow> Inl KeyError
                                        | Some c \<Rightarrow> Inr (PyFun c))
                          | _ \<Rightarrow> Inl TypeError),
      default = None\<rparr>"

definition handle_no_subcommand :: "ext \<Rightarrow> world \<Rightarrow> outcome" where
  "handle_no_subcommand x w =
     (let w1 = draw_logo x w;
          w2 = log (Echo [newline, CHR 0x08]) w1;
          w3 = secho (Plain ''Welcome to NoneBot CLI!'') (Some Green) True w2
      in case prompt x [menu_question] w3 of
           (Inl e, w4) \<Rightarrow> (Inl e, w4)
         | (Inr answers, w4) \<Rightarrow>
             (case map_of answers ''subcommand'' of
                None \<Rightarrow> (Inr PyNone, error_input w4)
              | Some v \<Rightarrow>
                  if \<not> truthy v then (Inr PyNone, error_input w4)
                  else (case call_value x v w4 of
                          (Inl e, w5) \<Rightarrow> (Inl e, w5)
                        | (Inr r, w5) \<Rightarrow> (Inr PyNone, w5))))"


section \<open>Vocabulary of the properties\<close>

text \<open>
  A line as \<^const>\<open>readlines\<close> yields it is either terminated (it ends with its only
  newline) or, as the last line of a file with no final newline, unterminated.
\<close>

definition terminated :: "string \<Rightarrow> bool" where
  "terminated l \<longleftrightarrow> l \<noteq> [] \<and> last l = newline \<and> newline \<notin> set (butlast l)"

definition unterminated :: "string \<Rightarrow> bool" where
  "unterminated l \<longleftrightarrow> l \<noteq> [] \<and> newline \<notin> set l"

fun text_lines :: "string list \<Rightarrow> bool" where
  "text_lines [] = True"
| "text_lines [l] = (terminated l \<or> unterminated l)"
| "text_lines (l # ls) = (terminated l \<and> text_lines ls)"

definition spec_anchor :: "string \<Rightarrow> bool" where
  \<comment> \<open>The anchor test in the specification's words, for comparison with \<^const>\<open>is_anchor\<close>:
      the trimmed content of the line starts with the load-call or the init-call prefix.\<close>
  "spec_anchor l \<longleftrightarrow>
     startswith (lstrip l) ''nonebot.load'' \<or> startswith (lstrip l) ''nonebot.init''"

text \<open>
  Reading a trace: a prompt whose AnswerSet has not exactly the keys of the questions asked,
  a template instantiation, and an error message (a red \<^verbatim>\<open>secho\<close>).
\<close>

definition incomplete :: "event \<Rightarrow> bool" where
  "incomplete e =
     (case e of Prompt qs answers \<Rightarrow> keys answers \<noteq> set (map qname qs) | _ \<Rightarrow> False)"

definition generated :: "event \<Rightarrow> bool" where
  "generated e = (case e of Cookiecutter t d c \<Rightarrow> True | _ \<Rightarrow> False)"

definition error_shown :: "event \<Rightarrow> bool" where
  "error_shown e = (case e of Secho m (Some Red) b \<Rightarrow> True | _ \<Rightarrow> False)"

definition extends :: "world \<Rightarrow> event list \<Rightarrow> world" where
  "extends w es = w\<lparr>trace := trace w @ es\<rparr>"

definition clean_abort :: "(error + pyval) \<Rightarrow> event list \<Rightarrow> bool" where
  \<comment> \<open>if a prompt of the run was incomplete, the run returned, generated nothing and
      showed an error\<close>
  "clean_abort r es \<longleftrightarrow>
     (list_ex incomplete es \<longrightarrow>
        r = Inr PyNone \<and> \<not> list_ex generated es \<and> list_ex error_shown es)"

text \<open>
  Collaborators and a world for concrete runs: pip returns the given status and touches
  nothing, every question gets the same reply, every import yields the same module.
\<close>

definition sample_ext :: "int \<Rightarrow> reply \<Rightarrow> (string \<rightharpoonup> pyval) \<Rightarrow> ext" where
  "sample_ext status r m =
     \<lparr>user = (\<lambda>q answers. r),
      pipmain = (\<lambda>args w. (status, w)),
      import_module = (\<lambda>n w. (Inr m, w)),
      figlet_format = (\<lambda>t font. ''NoneBot''),
      docopt_parse = (\<lambda>argv. ([], 0, [])),
      set_no_color_if_clicolor = (\<lambda>v. v),
      perform_command = (\<lambda>options handler command_options. PyInt 0)\<rparr>"

definition sample_world :: "string option \<Rightarrow> world" where
  \<comment> \<open>a project directory whose \<^verbatim>\<open>bot.py\<close>, if any, has the given text\<close>
  "sample_world entry =
     \<lparr>files = (case entry of None \<Rightarrow> Map.empty | Some content \<Rightarrow> [''bot.py'' \<mapsto> content]),
      dirs = [''src'', ''src/plugins'', ''docs''],
      listing = [''bot.py'', ''src'', ''src/plugins'', ''docs'', ''docs/plugins''],
      trace = []\<rparr>"

section \<open>Reading and writing lines\<close>

lemma concat_readlines: "concat (readlines s) = s"
  by (induction s) (auto split: list.splits)

lemma readlines_line:
  "newline \<notin> set u \<Longrightarrow> readlines (u @ newline # t) = (u @ [newline]) # readlines t"
  by (induction u) auto

lemma readlines_no_newline:
  "newline \<notin> set u \<Longrightarrow> readlines u = (if u = [] then [] else [u])"
  by (induction u) auto

lemma readlines_unterminated: "unterminated u \<Longrightarrow> readlines u = [u]"
  by (simp add: unterminated_def readlines_no_newline)

lemma readlines_terminated:
  assumes "terminated l"
  shows "readlines (l @ t) = l # readlines t"
proof -
  from assms have "l = butlast l @ [newline]" and "newline \<notin> set (butlast l)"
    unfolding terminated_def by (metis append_butlast_last_id, simp)
  then show ?thesis
    using readlines_line[of "butlast l" t] by (metis append.assoc append_Cons append_Nil)
qed

lemma readlines_concat: "text_lines ls \<Longrightarrow> readlines (concat ls) = ls"
proof (induction ls rule: text_lines.induct)
  case 1
  show ?case by simp
next
  case (2 l)
  then show ?case
    using readlines_terminated[of l "[]"] readlines_unterminated[of l] by auto
next
  case (3 l v va)
  then show ?case
    using readlines_terminated[of l "concat (v # va)"] by simp
qed

lemma text_lines_readlines: "text_lines (readlines s)"
proof (induction s)
  case Nil
  show ?case by simp
next
  case (Cons c cs)
  show ?case
  proof (cases "c = newline")
    case True
    then show ?thesis
      using Cons by (cases "readlines cs") (auto simp: terminated_def)
  next
    case False
    show ?thesis
    proof (cases "readlines cs")
      case Nil
      then show ?thesis
        using False by (simp add: unterminated_def)
    next
      case (Cons l ls)
      then show ?thesis
        using False \<open>text_lines (readlines cs)\<close>
        by (cases ls) (auto simp: terminated_def unterminated_def)
    qed
  qed
qed

lemma text_lines_insert:
  assumes "text_lines (pre @ a # post)" and "terminated a" and "terminated y"
  shows "text_lines (pre @ a # y # post)"
  using assms
proof (induction pre)
  case Nil
  then show ?case by (cases post) auto
next
  case (Cons p pre)
  then show ?case by (cases pre) auto
qed

lemma terminated_load_statement:
  "newline \<notin> set package \<Longrightarrow> terminated (load_statement package)"
  by (simp add: terminated_def load_statement_def butlast_append)

section \<open>The insertion point\<close>

lemma list_index_none: "True \<notin> set bs \<Longrightarrow> list_index bs True = Inl ValueError"
  by (induction bs) auto

lemma list_index_first:
  "True \<notin> set pre \<Longrightarrow> list_index (pre @ True # post) True = Inr (length pre)"
  by (induction pre) auto

lemma insert_index_none:
  "\<forall>l \<in> set lines. \<not> is_anchor l \<Longrightarrow> insert_index lines = Inl ValueError"
  by (simp add: insert_index_def list_index_none image_iff)

lemma insert_index_last:
  assumes "is_anchor a" and "\<forall>l \<in> set post. \<not> is_anchor l"
  shows "insert_index (pre @ a # post) = Inr (Suc (length pre))"
proof -
  have "map is_anchor (rev (pre @ a # post))
          = map is_anchor (rev post) @ True # map is_anchor (rev pre)"
    using assms(1) by simp
  moreover have "True \<notin> set (map is_anchor (rev post))"
    using assms(2) by auto
  ultimately have "list_index (map is_anchor (rev (pre @ a # post))) True = Inr (length post)"
    using list_index_first[of "map is_anchor (rev post)" "map is_anchor (rev pre)"] by simp
  then show ?thesis
    by (simp add: insert_index_def)
qed

lemma list_insert_after:
  "list_insert (Suc (length pre)) y (pre @ a # post) = pre @ a # y # post"
  by (simp add: list_insert_def)

lemma last_anchor_split:
  assumes "\<exists>l \<in> set lines. is_anchor l"
  shows "\<exists>pre a post. lines = pre @ a # post \<and> is_anchor a \<and> (\<forall>l \<in> set post. \<not> is_anchor l)"
  using assms split_list_last_prop[of lines is_anchor] by blast

text \<open>
  What \<^const>\<open>install_plugin\<close> writes when pip succeeded and the file has an anchor: the
  lines as read, with the load statement after the last anchor, one after another.
\<close>

lemma install_plugin_writes:
  assumes "pipmain x [''install'', ''-i'', index, ''nonebot_plugin_'' @ package] w = (0, w1)"
    and "files w1 file = Some content"
    and "readlines content = pre @ a # post"
    and "is_anchor a" and "\<forall>l \<in> set post. \<not> is_anchor l"
  shows "install_plugin x package file index w =
           (Inr PyNone,
            w1\<lparr>files := (files w1)(file \<mapsto> concat (pre @ a # load_statement package # post))\<rparr>)"
  using assms insert_index_last[of a post pre]
  by (simp add: install_plugin_def call_pip_install_def isfile_def open_read_def
      open_write_def writelines_def list_insert_after)

text \<open>
  Read back, the written file is the old line sequence with the new line after the last
  anchor, provided that anchor line was terminated and the package name has no newline.
\<close>

lemma install_plugin_reads_back:
  assumes "readlines content = pre @ a # post"
    and "terminated a" and "newline \<notin> set package"
  shows "readlines (concat (pre @ a # load_statement package # post))
           = pre @ a # load_statement package # post"
proof -
  have "text_lines (pre @ a # post)"
    using text_lines_readlines[of content] assms(1) by simp
  then have "text_lines (pre @ a # load_statement package # post)"
    using assms(2,3) by (simp add: text_lines_insert terminated_load_statement)
  then show ?thesis
    by (rule readlines_concat)
qed


text \<open>
  Whether a line is an anchor does not depend on its terminator, so the lines may be read
  with or without it.
\<close>

lemma startswith_terminator:
  assumes "newline \<notin> set p"
  shows "startswith (l @ [newline]) p \<longleftrightarrow> startswith l p"
proof (cases "length p \<le> length l")
  case True
  then show ?thesis by (simp add: startswith_def)
next
  case False
  then have "take (length p) l = l" and "take (length p) (l @ [newline]) = l @ [newline]"
    by simp_all
  moreover have "l \<noteq> p"
    using False by auto
  moreover have "l @ [newline] \<noteq> p"
    using assms by auto
  ultimately show ?thesis
    by (simp add: startswith_def)
qed

lemma is_anchor_terminator: "is_anchor (l @ [newline]) \<longleftrightarrow> is_anchor l"
  by (simp add: is_anchor_def startswith_terminator)

text \<open>
  Together: for a terminated last anchor line, the file read back is the old line sequence
  with the load statement inserted right after that line.
\<close>

lemma install_plugin_inserts_line:
  assumes "pipmain x [''install'', ''-i'', index, ''nonebot_plugin_'' @ package] w = (0, w1)"
    and "files w1 file = Some content"
    and "readlines content = pre @ a # post"
    and "is_anchor a" and "\<forall>l \<in> set post. \<not> is_anchor l"
    and "terminated a" and "newline \<notin> set package"
  shows "\<exists>content'.
           install_plugin x package file index w
             = (Inr PyNone, w1\<lparr>files := (files w1)(file \<mapsto> content')\<rparr>)
           \<and> readlines content' = pre @ a # load_statement package # post"
  using install_plugin_writes[OF assms(1-5)] install_plugin_reads_back[OF assms(3,6,7)]
  by blast

text \<open>The example of the specification: three lines, the anchor in the middle.\<close>

lemma install_plugin_example:
  "install_plugin (sample_ext 0 Cancel Map.empty) ''foo'' ''bot.py'' ''https://pypi.org/pypi''
       (sample_world (Some (''import nonebot'' @ [newline] @ ''nonebot.init()'' @ [newline]
          @ ''nonebot.run()'' @ [newline])))
     = (Inr PyNone,
        sample_world (Some (''import nonebot'' @ [newline] @ ''nonebot.init()'' @ [newline]
          @ ''nonebot.load_plugin('' @ [dquote] @ ''nonebot_plugin_foo'' @ [dquote] @ '')''
          @ [newline] @ ''nonebot.run()'' @ [newline])))"
  by (simp add: install_plugin_def call_pip_install_def sample_ext_def sample_world_def
      isfile_def open_read_def open_write_def insert_index_def is_anchor_def startswith_def
      list_insert_def load_statement_def writelines_def)

section \<open>Installing a plugin: the claims\<close>

text \<open>
  C1. With pip successful and an anchor in the file, the file should become the old line
  sequence with the line \<^verbatim>\<open>nonebot.load_plugin("nonebot_plugin_<s>")\<close> inserted after the
  last anchor, every other line unchanged. \<^const>\<open>install_plugin\<close> does so whenever the
  last anchor line is terminated (\<open>install_plugin_inserts_line\<close>, \<open>install_plugin_example\<close>).
  When the last anchor is the final line of a file with no final newline, the statement is
  written onto that same line. Here the file \<^verbatim>\<open>import nonebot\nnonebot.init()\<close> of two
  lines is rewritten to a file of two lines, the second being
  \<^verbatim>\<open>nonebot.init()nonebot.load_plugin("nonebot_plugin_foo")\<close>: the anchor line has changed
  and no line was inserted.
\<close>

theorem install_plugin_joins_unterminated_anchor:
  "install_plugin (sample_ext 0 Cancel Map.empty) ''foo'' ''bot.py'' ''https://pypi.org/pypi''
       (sample_world (Some (''import nonebot'' @ [newline] @ ''nonebot.init()'')))
     = (Inr PyNone,
        sample_world (Some (''import nonebot'' @ [newline]
          @ ''nonebot.init()nonebot.load_plugin('' @ [dquote] @ ''nonebot_plugin_foo'' @ [dquote]
          @ '')'' @ [newline])))
   \<and> readlines (''import nonebot'' @ [newline] @ ''nonebot.init()'')
     = [''import nonebot'' @ [newline], ''nonebot.init()'']
   \<and> readlines (''import nonebot'' @ [newline]
          @ ''nonebot.init()nonebot.load_plugin('' @ [dquote] @ ''nonebot_plugin_foo'' @ [dquote]
          @ '')'' @ [newline])
     = [''import nonebot'' @ [newline],
        ''nonebot.init()nonebot.load_plugin('' @ [dquote] @ ''nonebot_plugin_foo'' @ [dquote]
          @ '')'' @ [newline]]"
  by (simp add: install_plugin_def call_pip_install_def sample_ext_def sample_world_def
      isfile_def open_read_def open_write_def insert_index_def is_anchor_def startswith_def
      list_insert_def load_statement_def writelines_def)

text \<open>
  C2. When pip succeeded, the entry file exists and none of its lines is an anchor,
  \<^const>\<open>install_plugin\<close> ends with the ValueError of \<^verbatim>\<open>index\<close>, which nothing catches.
  The world is the one pip left: the file is not rewritten and no message is printed.
\<close>

theorem install_plugin_no_anchor_raises:
  assumes "pipmain x [''install'', ''-i'', index, ''nonebot_plugin_'' @ package] w = (0, w1)"
    and "files w1 file = Some content"
    and "\<forall>l \<in> set (readlines content). \<not> is_anchor l"
  shows "install_plugin x package file index w = (Inl ValueError, w1)"
  using assms insert_index_none[of "readlines content"]
  by (simp add: install_plugin_def call_pip_install_def isfile_def open_read_def)

theorem install_plugin_no_anchor_raises_witness:
  "install_plugin (sample_ext 0 Cancel Map.empty) ''foo'' ''bot.py'' ''https://pypi.org/pypi''
       (sample_world (Some (''import nonebot'' @ [newline] @ ''nonebot.run()'' @ [newline])))
     = (Inl ValueError,
        sample_world (Some (''import nonebot'' @ [newline] @ ''nonebot.run()'' @ [newline])))"
  using install_plugin_no_anchor_raises[of "sample_ext 0 Cancel Map.empty" "''https://pypi.org/pypi''"
      "''foo''" "sample_world (Some (''import nonebot'' @ [newline] @ ''nonebot.run()'' @ [newline]))"
      "sample_world (Some (''import nonebot'' @ [newline] @ ''nonebot.run()'' @ [newline]))"
      "''bot.py''" "''import nonebot'' @ [newline] @ ''nonebot.run()'' @ [newline]"]
  by (simp add: sample_ext_def sample_world_def is_anchor_def startswith_def)

text \<open>
  C3. When pip returns a nonzero status, \<^const>\<open>install_plugin\<close> returns with the world
  exactly as pip left it, whatever the package, the path and the file's text: it writes no
  file and prints nothing.
\<close>

theorem install_plugin_failed_install:
  assumes "pipmain x [''install'', ''-i'', index, ''nonebot_plugin_'' @ package] w = (status, w1)"
    and "status \<noteq> 0"
  shows "install_plugin x package file index w = (Inr PyNone, w1)"
  using assms by (simp add: install_plugin_def call_pip_install_def)

theorem install_plugin_failed_install_witness:
  "install_plugin (sample_ext 1 Cancel Map.empty) ''foo'' ''bot.py'' ''https://pypi.org/pypi''
       (sample_world (Some (''nonebot.init()'' @ [newline])))
     = (Inr PyNone, sample_world (Some (''nonebot.init()'' @ [newline])))"
  using install_plugin_failed_install[of "sample_ext 1 Cancel Map.empty" "''https://pypi.org/pypi''"
      "''foo''" "sample_world (Some (''nonebot.init()'' @ [newline]))" 1
      "sample_world (Some (''nonebot.init()'' @ [newline]))" "''bot.py''"]
  by (simp add: sample_ext_def)

text \<open>
  C8. When pip succeeded and the entry file does not exist, \<^const>\<open>install_plugin\<close> prints
  \<^verbatim>\<open>Cannot find <file> in current folder!\<close> in red and changes nothing else: no file is
  written.
\<close>

theorem install_plugin_missing_entry_file:
  assumes "pipmain x [''install'', ''-i'', index, ''nonebot_plugin_'' @ package] w = (0, w1)"
    and "files w1 file = None"
  shows "install_plugin x package file index w =
           (Inr PyNone,
            w1\<lparr>trace := trace w1 @
              [Secho (Plain (''Cannot find '' @ file @ '' in current folder!'')) (Some Red) False]\<rparr>)"
  using assms
  by (simp add: install_plugin_def call_pip_install_def isfile_def secho_def log_def)

theorem install_plugin_missing_entry_file_witness:
  "install_plugin (sample_ext 0 Cancel Map.empty) ''foo'' ''bot.py'' ''https://pypi.org/pypi''
       (sample_world None)
     = (Inr PyNone,
        (sample_world None)\<lparr>trace :=
           [Secho (Plain ''Cannot find bot.py in current folder!'') (Some Red) False]\<rparr>)"
  using install_plugin_missing_entry_file[of "sample_ext 0 Cancel Map.empty"
      "''https://pypi.org/pypi''" "''foo''" "sample_world None" "sample_world None" "''bot.py''"]
  by (simp add: sample_ext_def sample_world_def)

section \<open>Which lines are anchors\<close>

lemma startswith_prefix: "startswith l p \<longleftrightarrow> prefix p l"
  unfolding startswith_def prefix_def by (metis append_eq_conv_conj append_take_drop_id)

lemma startswith_lstrip:
  assumes "startswith l p" and "p \<noteq> []" and "\<not> is_space (hd p)"
  shows "lstrip l = l"
proof -
  from assms(1) obtain r where "l = p @ r"
    unfolding startswith_prefix prefix_def by blast
  with assms(2,3) show ?thesis
    by (cases p) (simp_all add: lstrip_def)
qed

text \<open>
  C5, as stated: a line is an anchor if and only if its trimmed content starts with one of
  the two prefixes, so the indented line \<^verbatim>\<open>    nonebot.init()\<close> is one. The code tests the
  line as read, with no trimming: that line satisfies the specification's test and is not
  an anchor.
\<close>

theorem indented_init_line_counterexample:
  "spec_anchor ''    nonebot.init()'' \<and> \<not> is_anchor ''    nonebot.init()''"
  by (simp add: spec_anchor_def is_anchor_def startswith_def lstrip_def is_space_def)

text \<open>
  C5, amended: a line is an anchor if and only if the line itself, untrimmed, starts with
  \<^verbatim>\<open>nonebot.load\<close> or \<^verbatim>\<open>nonebot.init\<close>; that is, if and only if its trimmed content starts
  with one of them and the line has no leading whitespace.
\<close>

theorem is_anchor_untrimmed:
  "(is_anchor l \<longleftrightarrow> prefix ''nonebot.load'' l \<or> prefix ''nonebot.init'' l)
   \<and> (is_anchor l \<longleftrightarrow> spec_anchor l \<and> lstrip l = l)"
proof -
  have "lstrip l = l" if "is_anchor l"
    using that startswith_lstrip[of l "''nonebot.load''"] startswith_lstrip[of l "''nonebot.init''"]
    by (auto simp: is_anchor_def is_space_def)
  then show ?thesis
    by (auto simp: is_anchor_def spec_anchor_def startswith_prefix)
qed

theorem is_anchor_untrimmed_witness:
  "is_anchor (''nonebot.init()'' @ [newline]) \<and> \<not> is_anchor (''    nonebot.init()'' @ [newline])"
  using is_anchor_untrimmed[of "''nonebot.init()'' @ [newline]"]
    is_anchor_untrimmed[of "''    nonebot.init()'' @ [newline]"]
  by (simp add: lstrip_def is_space_def)

section \<open>Running the bot: the claims\<close>

lemma run_bot_missing_attribute:
  assumes "isfile w file"
    and "import_module x (fst (splitext file)) w = (Inr module, w1)"
    and "module app = None"
  shows "run_bot x file app w = (Inl AttributeError, w1)"
  using assms by (simp add: run_bot_def getattr_def)

text \<open>
  C7. When the entry file exists and the imported module does not define the attribute,
  \<^verbatim>\<open>run_bot\<close> should warn and start the default run loop. The code calls \<^verbatim>\<open>getattr\<close>
  with no default, so it ends with AttributeError (\<open>run_bot_missing_attribute\<close>): here, for
  a \<^verbatim>\<open>bot.py\<close> whose module defines nothing, no warning is printed and no run loop starts.
\<close>

theorem run_bot_absent_attribute_raises:
  "run_bot (sample_ext 0 Cancel Map.empty) ''bot.py'' ''app''
       (sample_world (Some (''import nonebot'' @ [newline])))
     = (Inl AttributeError, sample_world (Some (''import nonebot'' @ [newline])))"
  by (rule run_bot_missing_attribute[where module = Map.empty])
    (simp_all add: isfile_def sample_world_def sample_ext_def)

text \<open>
  C10. When the entry file exists and the module defines the attribute, \<^const>\<open>run_bot\<close>
  looks at the value's truth: a falsy value (such as \<^verbatim>\<open>None\<close>) prints the warning about
  the ASGI server and starts the run loop with no app reference; only a truthy value starts
  it with \<^verbatim>\<open><module>:<attr>\<close>.
\<close>

theorem run_bot_present_attribute:
  assumes "isfile w file"
    and "import_module x (fst (splitext file)) w = (Inr module, w1)"
    and "module app = Some v"
  shows "run_bot x file app w =
           (Inr PyNone,
            if truthy v
            then w1\<lparr>trace := trace w1 @ [NonebotRun (Some (fst (splitext file) @ '':'' @ app))]\<rparr>
            else w1\<lparr>trace := trace w1 @
                   [Secho (Plain ''Cannot find an asgi server. Add `app = nonebot.get_asgi()` to enable reload mode.'')
                      None False,
                    NonebotRun None]\<rparr>)"
  using assms by (simp add: run_bot_def getattr_def nonebot_run_def secho_def log_def)

theorem run_bot_present_attribute_witness:
  "run_bot (sample_ext 0 Cancel [''app'' \<mapsto> PyNone]) ''bot.py'' ''app''
       (sample_world (Some (''app = None'' @ [newline])))
     = (Inr PyNone,
        (sample_world (Some (''app = None'' @ [newline])))\<lparr>trace :=
           [Secho (Plain ''Cannot find an asgi server. Add `app = nonebot.get_asgi()` to enable reload mode.'')
              None False,
            NonebotRun None]\<rparr>)
   \<and> run_bot (sample_ext 0 Cancel [''app'' \<mapsto> PyObj True]) ''bot.py'' ''app''
       (sample_world (Some (''app = nonebot.get_asgi()'' @ [newline])))
     = (Inr PyNone,
        (sample_world (Some (''app = nonebot.get_asgi()'' @ [newline])))\<lparr>trace :=
           [NonebotRun (Some ''bot:app'')]\<rparr>)"
  using run_bot_present_attribute[of "sample_world (Some (''app = None'' @ [newline]))" "''bot.py''"
      "sample_ext 0 Cancel [''app'' \<mapsto> PyNone]" "[''app'' \<mapsto> PyNone]"
      "sample_world (Some (''app = None'' @ [newline]))" "''app''" PyNone]
    run_bot_present_attribute[of "sample_world (Some (''app = nonebot.get_asgi()'' @ [newline]))" "''bot.py''"
      "sample_ext 0 Cancel [''app'' \<mapsto> PyObj True]" "[''app'' \<mapsto> PyObj True]"
      "sample_world (Some (''app = nonebot.get_asgi()'' @ [newline]))" "''app''" "PyObj True"]
  by (simp add: isfile_def sample_world_def sample_ext_def splitext_def rfind_def)

section \<open>The menu and the compose variants\<close>

lemma menu_entries:
  "map_of menu ''Build Docker Image for the Bot'' = Some (ComposePartial ''build'' (Some []))"
  "map_of menu ''Deploy the Bot to Docker'' = Some (ComposePartial ''up'' (Some [''-d'']))"
  "map_of menu ''Stop the Bot Container in Docker'' = Some (ComposePartial ''down'' None)"
  by (simp_all add: menu_def)

lemma prompt_menu:
  assumes "user x menu_question [] = Answer (PyStr label)" and "map_of menu label = Some c"
  shows "prompt x [menu_question] w
           = (Inr [(''subcommand'', PyFun c)],
              log (Prompt [menu_question] [(''subcommand'', PyFun c)]) w)"
proof -
  have "label \<in> set (map fst menu)"
    using assms(2) by (metis map_of_eq_None_iff option.distinct(1) set_map)
  then have "ask (user x) [menu_question] [] = Inr [(''subcommand'', PyFun c)]"
    using assms by (simp add: menu_question_def acceptable_def)
  then show ?thesis
    by (simp add: prompt_def)
qed

lemma handle_no_subcommand_selected:
  assumes "user x menu_question [] = Answer (PyStr label)" and "map_of menu label = Some c"
  shows "handle_no_subcommand x w =
           (case call x c
              (w\<lparr>trace := trace w @
                 [Secho (Plain (strip (figlet_format x ''NoneBot'' ''basic''))) (Some Cyan) True,
                  Echo [newline, CHR 0x08],
                  Secho (Plain ''Welcome to NoneBot CLI!'') (Some Green) True,
                  Prompt [menu_question] [(''subcommand'', PyFun c)]]\<rparr>) of
              (Inl e, w5) \<Rightarrow> (Inl e, w5)
            | (Inr r, w5) \<Rightarrow> (Inr PyNone, w5))"
  using prompt_menu[OF assms]
  by (simp add: handle_no_subcommand_def Let_def call_value_def draw_logo_def secho_def log_def)

text \<open>
  The build and deploy entries bind both parameters: invoked, they run the compose proxy,
  which parses \<^verbatim>\<open>[command, *args]\<close> first. The stop entry binds the command only.
\<close>

lemma compose_variants_bound:
  "call x (ComposePartial command (Some args)) w = call_docker_compose x command args w"
  "call x (ComposePartial command None) w = (Inl TypeError, w)"
  by (simp_all add: call_def)

lemma call_docker_compose_trace:
  assumes "docopt_parse x (command # args) = (options, handler, command_options)"
    and "command_options1 =
           (if truthy (dict_get options ''--no-ansi'')
            then AList.update ''--no-color'' (PyBool True) command_options
            else command_options)"
  shows "call_docker_compose x command args w =
           (Inr (perform_command x options handler command_options1),
            w\<lparr>trace := trace w @
               [ComposeParse (command # args),
                SetupConsoleHandler (dict_get options ''--verbose'')
                  (set_no_color_if_clicolor x (dict_get options ''--no-ansi''))
                  (dict_get options ''--log-level''),
                SetupParallelLogger (set_no_color_if_clicolor x (dict_get options ''--no-ansi'')),
                PerformCommand options handler command_options1]\<rparr>)"
  using assms by (simp add: call_docker_compose_def log_def Let_def)

text \<open>
  C6. Build, deploy and stop should call the compose proxy with \<^verbatim>\<open>build\<close>, \<^verbatim>\<open>up -d\<close> and
  \<^verbatim>\<open>down\<close>. Build and deploy do (\<open>menu_entries\<close>, \<open>compose_variants_bound\<close>,
  \<open>call_docker_compose_trace\<close>). The stop entry is
  \<^verbatim>\<open>partial(_call_docker_compose, "down")\<close>, which leaves the required parameter \<^verbatim>\<open>args\<close>
  unbound: selected from the menu, it raises TypeError after the prompt, and the compose
  proxy never runs.
\<close>

theorem stop_variant_raises:
  "handle_no_subcommand
       (sample_ext 0 (Answer (PyStr ''Stop the Bot Container in Docker'')) Map.empty) w
     = (Inl TypeError,
        w\<lparr>trace := trace w @
           [Secho (Plain ''NoneBot'') (Some Cyan) True,
            Echo [newline, CHR 0x08],
            Secho (Plain ''Welcome to NoneBot CLI!'') (Some Green) True,
            Prompt [menu_question] [(''subcommand'', PyFun (ComposePartial ''down'' None))]]\<rparr>)"
proof -
  let ?x = "sample_ext 0 (Answer (PyStr ''Stop the Bot Container in Docker'')) Map.empty"
  have "user ?x menu_question [] = Answer (PyStr ''Stop the Bot Container in Docker'')"
    by (simp add: sample_ext_def)
  from handle_no_subcommand_selected[OF this menu_entries(3), of w]
  show ?thesis
    by (simp add: call_def sample_ext_def strip_def is_space_def)
qed

section \<open>Prompts and their AnswerSets\<close>

text \<open>The prompt stores answers only under the names of the questions it asked.\<close>

lemma keys_update: "keys (AList.update k v d) = insert k (keys d)"
  by (simp add: keys_def dom_update)

lemma ask_keys: "ask u qs acc = Inr a \<Longrightarrow> keys a \<subseteq> keys acc \<union> set (map qname qs)"
proof (induction qs arbitrary: acc)
  case Nil
  then show ?case by simp
next
  case (Cons q qs)
  show ?case
  proof (cases "case choices q of None \<Rightarrow> Inr [] | Some f \<Rightarrow> f acc")
    case (Inl e)
    with Cons.prems show ?thesis by simp
  next
    case (Inr shown)
    show ?thesis
    proof (cases "u q acc")
      case (Answer v)
      show ?thesis
      proof (cases "acceptable q shown v")
        case False
        with Cons.prems Inr Answer show ?thesis by (simp add: keys_def)
      next
        case True
        show ?thesis
        proof (cases "case qfilter q of None \<Rightarrow> Inr v | Some f \<Rightarrow> f v")
          case (Inl e)
          with Cons.prems \<open>(case choices q of None \<Rightarrow> Inr [] | Some f \<Rightarrow> f acc) = Inr shown\<close>
            Answer True show ?thesis by simp
        next
          case (Inr v')
          with Cons.prems \<open>(case choices q of None \<Rightarrow> Inr [] | Some f \<Rightarrow> f acc) = Inr shown\<close>
            Answer True
          have "ask u qs (AList.update (qname q) v' acc) = Inr a" by simp
          from Cons.IH[OF this] show ?thesis by (auto simp: keys_update)
        qed
      qed
    next
      case Skip
      with Cons.prems Inr have "ask u qs acc = Inr a" by simp
      from Cons.IH[OF this] show ?thesis by auto
    next
      case Cancel
      with Cons.prems Inr show ?thesis by (simp add: keys_def)
    qed
  qed
qed

lemma map_of_keys: "map_of d k = None \<longleftrightarrow> k \<notin> keys d"
  by (simp add: keys_def map_of_eq_None_iff)

lemma one_question_keys:
  assumes "ask u [q] [] = Inr a"
  shows "keys a = set (map qname [q]) \<longleftrightarrow> map_of a (qname q) \<noteq> None"
  using ask_keys[OF assms] by (auto simp: map_of_keys keys_def)

section \<open>Incomplete answers\<close>

lemma extends_log: "log e (extends w es) = extends w (es @ [e])"
  by (simp add: log_def extends_def)

lemma log_extends: "log e w = extends w [e]"
  by (simp add: log_def extends_def)

lemma extends_extends: "extends (extends w es) es' = extends w (es @ es')"
  by (simp add: extends_def)

lemma ask_plugin_dir_run:
  "\<exists>es. snd (ask_plugin_dir x name w) = extends w es \<and> clean_abort (fst (ask_plugin_dir x name w)) es"
proof (cases "ask (user x) [plugin_dir_input_question w] []")
  case (Inl e)
  then show ?thesis
    by (intro exI[of _ "[]"]) (simp add: ask_plugin_dir_def prompt_def extends_def clean_abort_def)
next
  case (Inr a)
  note q = one_question_keys[OF Inr]
  show ?thesis
  proof (cases "map_of a ''plugin_dir''")
    case None
    then show ?thesis using Inr
      by (intro exI[of _ "[Prompt [plugin_dir_input_question w] a, Secho (Plain ''Error Input!'') (Some Red) False]"])
        (simp add: ask_plugin_dir_def prompt_def error_input_def secho_def log_extends extends_extends
          clean_abort_def generated_def error_shown_def)
  next
    case (Some d)
    then show ?thesis using Inr q
      by (intro exI[of _ "[Prompt [plugin_dir_input_question w] a, Cookiecutter PluginTemplate (Some d) [(''plugin_name'', name)]]"])
        (simp add: ask_plugin_dir_def prompt_def generate_plugin_def cookiecutter_def log_extends extends_extends
          clean_abort_def incomplete_def plugin_dir_input_question_def)
  qed
qed


lemma clean_abort_Cons:
  "\<not> incomplete e \<Longrightarrow> \<not> generated e \<Longrightarrow> clean_abort r es \<Longrightarrow> clean_abort r (e # es)"
  by (auto simp: clean_abort_def)

lemma ask_plugin_dir_after:
  assumes "\<not> incomplete e" and "\<not> generated e"
  shows "\<exists>es. snd (ask_plugin_dir x name (log e w)) = extends w es
            \<and> clean_abort (fst (ask_plugin_dir x name (log e w))) es"
proof -
  obtain es where "snd (ask_plugin_dir x name (log e w)) = extends (log e w) es"
    and "clean_abort (fst (ask_plugin_dir x name (log e w))) es"
    using ask_plugin_dir_run[of x name "log e w"] by blast
  then show ?thesis
    using assms by (intro exI[of _ "e # es"]) (simp add: log_extends extends_extends clean_abort_Cons)
qed

lemma choose_plugin_dir_run:
  "\<exists>es. snd (choose_plugin_dir x name plugin_dir w) = extends w es
        \<and> clean_abort (fst (choose_plugin_dir x name plugin_dir w)) es"
proof (cases "truthy plugin_dir")
  case True
  show ?thesis
  proof (cases "path_is_dir w plugin_dir")
    case (Inl e)
    then show ?thesis using True
      by (intro exI[of _ "[]"]) (simp add: choose_plugin_dir_def extends_def clean_abort_def)
  next
    case (Inr b)
    show ?thesis
    proof (cases b)
      case True
      then show ?thesis using Inr \<open>truthy plugin_dir\<close>
        by (intro exI[of _ "[Cookiecutter PluginTemplate (Some plugin_dir) [(''plugin_name'', name)]]"])
          (simp add: choose_plugin_dir_def generate_plugin_def cookiecutter_def log_extends
            clean_abort_def incomplete_def)
    next
      case False
      have "choose_plugin_dir x name plugin_dir w =
              ask_plugin_dir x name (log (Secho (Plain ''Plugin Dir is not a directory!'') (Some Yellow) False) w)"
        using False Inr \<open>truthy plugin_dir\<close> by (simp add: choose_plugin_dir_def secho_def)
      then show ?thesis
        using ask_plugin_dir_after[of "Secho (Plain ''Plugin Dir is not a directory!'') (Some Yellow) False" x name w]
        by (simp add: incomplete_def generated_def)
    qed
  qed
next
  case False
  let ?q = "plugin_dir_list_question w"
  show ?thesis
  proof (cases "ask (user x) [?q] []")
    case (Inl e)
    then show ?thesis using False
      by (intro exI[of _ "[]"]) (simp add: choose_plugin_dir_def prompt_def extends_def clean_abort_def)
  next
    case (Inr a)
    note q = one_question_keys[OF Inr]
    show ?thesis
    proof (cases "map_of a ''plugin_dir''")
      case None
      then show ?thesis using Inr False
        by (intro exI[of _ "[Prompt [?q] a, Secho (Plain ''Error Input!'') (Some Red) False]"])
          (simp add: choose_plugin_dir_def prompt_def error_input_def secho_def log_extends
            extends_extends clean_abort_def generated_def error_shown_def)
    next
      case (Some d)
      then have complete: "\<not> incomplete (Prompt [?q] a)" "\<not> generated (Prompt [?q] a)"
        using q by (simp_all add: incomplete_def generated_def plugin_dir_list_question_def)
      show ?thesis
      proof (cases "d = PyStr ''Other''")
        case True
        have "choose_plugin_dir x name plugin_dir w = ask_plugin_dir x name (log (Prompt [?q] a) w)"
          using True Some Inr False by (simp add: choose_plugin_dir_def prompt_def)
        then show ?thesis
          using ask_plugin_dir_after[OF complete, of x name w] by simp
      next
        case False
        then show ?thesis using Some Inr \<open>\<not> truthy plugin_dir\<close> complete
          by (intro exI[of _ "[Prompt [?q] a, Cookiecutter PluginTemplate (Some d) [(''plugin_name'', name)]]"])
            (simp add: choose_plugin_dir_def prompt_def generate_plugin_def cookiecutter_def
              log_extends extends_extends clean_abort_def incomplete_def)
      qed
    qed
  qed
qed

lemma create_plugin_run:
  "\<exists>es. snd (create_plugin x name plugin_dir w) = extends w es
        \<and> clean_abort (fst (create_plugin x name plugin_dir w)) es"
proof (cases "truthy name")
  case True
  then show ?thesis
    using choose_plugin_dir_run[of x name plugin_dir w] by (simp add: create_plugin_def)
next
  case False
  let ?q = "plugin_name_question"
  show ?thesis
  proof (cases "ask (user x) [?q] []")
    case (Inl e)
    then show ?thesis using False
      by (intro exI[of _ "[]"]) (simp add: create_plugin_def prompt_def extends_def clean_abort_def)
  next
    case (Inr a)
    note q = one_question_keys[OF Inr]
    show ?thesis
    proof (cases "map_of a ''plugin_name''")
      case None
      then show ?thesis using Inr False
        by (intro exI[of _ "[Prompt [?q] a, Secho (Plain ''Error Input!'') (Some Red) False]"])
          (simp add: create_plugin_def prompt_def error_input_def secho_def log_extends
            extends_extends clean_abort_def generated_def error_shown_def)
    next
      case (Some n)
      then have complete: "\<not> incomplete (Prompt [?q] a)" "\<not> generated (Prompt [?q] a)"
        using q by (simp_all add: incomplete_def generated_def plugin_name_question_def)
      have run: "create_plugin x name plugin_dir w = choose_plugin_dir x n plugin_dir (log (Prompt [?q] a) w)"
        using Some Inr False by (simp add: create_plugin_def prompt_def)
      obtain es where "snd (choose_plugin_dir x n plugin_dir (log (Prompt [?q] a) w))
                         = extends (log (Prompt [?q] a) w) es"
        and "clean_abort (fst (choose_plugin_dir x n plugin_dir (log (Prompt [?q] a) w))) es"
        using choose_plugin_dir_run[of x n plugin_dir "log (Prompt [?q] a) w"] by blast
      then show ?thesis
        using complete run
        by (intro exI[of _ "Prompt [?q] a # es"]) (simp add: log_extends extends_extends clean_abort_Cons)
    qed
  qed
qed

lemma create_project_run:
  "\<exists>es. snd (create_project x w) = extends w es \<and> clean_abort (fst (create_project x w)) es"
proof (cases "ask (user x) project_question []")
  case (Inl e)
  then show ?thesis
    by (intro exI[of _ "[]"]) (simp add: create_project_def prompt_def extends_def clean_abort_def)
next
  case (Inr a)
  show ?thesis
  proof (cases "set (map qname project_question) = keys a")
    case True
    then show ?thesis using Inr
      by (intro exI[of _ "[Prompt project_question a, Cookiecutter ProjectTemplate None a]"])
        (simp add: create_project_def prompt_def cookiecutter_def log_extends extends_extends
          clean_abort_def incomplete_def Let_def)
  next
    case False
    then show ?thesis using Inr
      by (intro exI[of _ "[Prompt project_question a,
            Secho (MissingKeys (set (map qname project_question) - keys a)) (Some Red) False]"])
        (simp add: create_project_def prompt_def secho_def log_extends extends_extends
          clean_abort_def generated_def error_shown_def Let_def)
  qed
qed

text \<open>
  C4. In a run of \<^const>\<open>create_project\<close> or \<^const>\<open>create_plugin\<close>, the world changes by
  trace events only (no file is written). If one of the run's prompts returned an AnswerSet
  whose key set is not the key set of the questions asked, the run returns normally, no
  template is instantiated and an error message is shown.
\<close>

theorem incomplete_answers_abort:
  assumes "run = create_project x \<or> run = create_plugin x name plugin_dir"
  shows "\<exists>es. snd (run w) = w\<lparr>trace := trace w @ es\<rparr>
           \<and> ((\<exists>e \<in> set es. incomplete e) \<longrightarrow>
                fst (run w) = Inr PyNone \<and> (\<forall>e \<in> set es. \<not> generated e) \<and> (\<exists>e \<in> set es. error_shown e))"
  using assms create_project_run[of x w] create_plugin_run[of x name plugin_dir w]
  by (auto simp: clean_abort_def extends_def list_ex_iff)


theorem incomplete_answers_abort_witness:
  "create_project (sample_ext 0 Cancel Map.empty) (sample_world None)
     = (Inr PyNone,
        (sample_world None)\<lparr>trace :=
           [Prompt project_question [],
            Secho (MissingKeys {''project_name'', ''use_src'', ''load_builtin''}) (Some Red) False]\<rparr>)
   \<and> incomplete (Prompt project_question [])"
  using incomplete_answers_abort[of "create_project (sample_ext 0 Cancel Map.empty)"
      "sample_ext 0 Cancel Map.empty" PyNone PyNone "sample_world None"]
  by (simp add: create_project_def prompt_def project_question_def sample_ext_def
      sample_world_def keys_def secho_def log_def incomplete_def Let_def)

section \<open>Choosing the plugin directory\<close>

lemma count_list_distinct: "distinct xs \<Longrightarrow> p \<in> set xs \<Longrightarrow> count_list xs p = 1"
  by (induction xs) auto

lemma detected_eq:
  "detected w = filter (\<lambda>p. basename p = ''plugins'' \<and> is_dir w p) (listing w) @ [''Other'']"
  by (simp add: detected_def glob_plugins_def conj_commute)

lemma detected_once:
  assumes "distinct (listing w)" and "p \<in> set (listing w)"
    and "basename p = ''plugins''" and "is_dir w p"
  shows "count_list (detected w) p = 1"
proof -
  have "p \<noteq> ''Other''"
    using assms(3) by (auto simp: basename_def)
  moreover have "count_list (filter (\<lambda>p. basename p = ''plugins'' \<and> is_dir w p) (listing w)) p = 1"
    using assms by (intro count_list_distinct) simp_all
  ultimately show ?thesis
    by (simp add: detected_eq)
qed

lemma detected_only:
  "p \<in> set (detected w) \<Longrightarrow>
     p = ''Other'' \<or> (p \<in> set (listing w) \<and> basename p = ''plugins'' \<and> is_dir w p)"
  by (auto simp: detected_eq)

lemma detected_other: "count_list (detected w) ''Other'' = 1 \<and> last (detected w) = ''Other''"
proof -
  have "''Other'' \<notin> set (filter (\<lambda>p. basename p = ''plugins'' \<and> is_dir w p) (listing w))"
    by (auto simp: basename_def)
  then show ?thesis
    by (simp add: detected_eq)
qed

lemma ask_list_question:
  "ask u [plugin_dir_list_question w] [] =
     Inr (case u (plugin_dir_list_question w) [] of
            Answer (PyStr s) \<Rightarrow> if s \<in> set (detected w) then [(''plugin_dir'', PyStr s)] else []
          | _ \<Rightarrow> [])"
  by (simp add: plugin_dir_list_question_def acceptable_def split: reply.splits pyval.splits)

lemma ask_input_question:
  "ask u [plugin_dir_input_question w] [] =
     Inr (case u (plugin_dir_input_question w) [] of
            Answer (PyStr s) \<Rightarrow> if s \<noteq> [] \<and> is_dir w s then [(''plugin_dir'', PyStr s)] else []
          | _ \<Rightarrow> [])"
  by (simp add: plugin_dir_input_question_def acceptable_def split: reply.splits pyval.splits)

lemma is_dir_log [simp]: "is_dir (log e w) = is_dir w"
  by (simp add: is_dir_def log_def fun_eq_iff)

lemma plugin_dir_input_question_log [simp]:
  "plugin_dir_input_question (log e w) = plugin_dir_input_question w"
  by (simp add: plugin_dir_input_question_def)

text \<open>What the manual prompt leads to: a cancelled or invalid entry aborts, a valid
  directory is handed to the generator.\<close>

lemma ask_plugin_dir_outcome:
  "ask_plugin_dir x name w =
     (case user x (plugin_dir_input_question w) [] of
        Answer (PyStr s) \<Rightarrow>
          if s \<noteq> [] \<and> is_dir w s
          then (Inr PyNone,
                w\<lparr>trace := trace w @
                   [Prompt [plugin_dir_input_question w] [(''plugin_dir'', PyStr s)],
                    Cookiecutter PluginTemplate (Some (PyStr s)) [(''plugin_name'', name)]]\<rparr>)
          else (Inr PyNone,
                w\<lparr>trace := trace w @
                   [Prompt [plugin_dir_input_question w] [],
                    Secho (Plain ''Error Input!'') (Some Red) False]\<rparr>)
      | _ \<Rightarrow> (Inr PyNone,
                w\<lparr>trace := trace w @
                   [Prompt [plugin_dir_input_question w] [],
                    Secho (Plain ''Error Input!'') (Some Red) False]\<rparr>))"
  by (simp add: ask_plugin_dir_def prompt_def ask_input_question generate_plugin_def
      cookiecutter_def error_input_def secho_def log_def del: ask.simps
      split: reply.splits pyval.splits)

lemma choose_plugin_dir_other:
  assumes "\<not> truthy plugin_dir"
    and "user x (plugin_dir_list_question w) [] = Answer (PyStr ''Other'')"
  shows "choose_plugin_dir x name plugin_dir w =
           ask_plugin_dir x name
             (log (Prompt [plugin_dir_list_question w] [(''plugin_dir'', PyStr ''Other'')]) w)"
proof -
  have "ask (user x) [plugin_dir_list_question w] [] = Inr [(''plugin_dir'', PyStr ''Other'')]"
    using assms(2) by (simp add: ask_list_question detected_def del: ask.simps)
  then show ?thesis
    using assms(1) by (simp add: choose_plugin_dir_def prompt_def del: ask.simps)
qed

lemma choose_plugin_dir_presents:
  assumes "\<not> truthy plugin_dir"
  shows "\<exists>a es. snd (choose_plugin_dir x name plugin_dir w) =
           w\<lparr>trace := trace w @ Prompt [plugin_dir_list_question w] a # es\<rparr>"
proof -
  obtain a where a: "ask (user x) [plugin_dir_list_question w] [] = Inr a"
    using ask_list_question by blast
  let ?w1 = "log (Prompt [plugin_dir_list_question w] a) w"
  show ?thesis
  proof (cases "map_of a ''plugin_dir''")
    case None
    then show ?thesis using a assms
      by (intro exI[of _ a] exI[of _ "[Secho (Plain ''Error Input!'') (Some Red) False]"])
        (simp add: choose_plugin_dir_def prompt_def error_input_def secho_def log_def)
  next
    case (Some d)
    show ?thesis
    proof (cases "d = PyStr ''Other''")
      case True
      obtain es where "snd (ask_plugin_dir x name ?w1) = extends ?w1 es"
        using ask_plugin_dir_run[of x name ?w1] by blast
      then show ?thesis using a assms Some True
        by (intro exI[of _ a] exI[of _ es])
          (simp add: choose_plugin_dir_def prompt_def extends_def log_def)
    next
      case False
      then show ?thesis using a assms Some
        by (intro exI[of _ a] exI[of _ "[Cookiecutter PluginTemplate (Some d) [(''plugin_name'', name)]]"])
          (simp add: choose_plugin_dir_def prompt_def generate_plugin_def cookiecutter_def log_def)
    qed
  qed
qed


lemma choose_plugin_dir_other_outcome:
  assumes "\<not> truthy plugin_dir"
    and "user x (plugin_dir_list_question w) [] = Answer (PyStr ''Other'')"
  shows "choose_plugin_dir x name plugin_dir w =
     (Inr PyNone,
      w\<lparr>trace := trace w @
        Prompt [plugin_dir_list_question w] [(''plugin_dir'', PyStr ''Other'')] #
        (case user x (plugin_dir_input_question w) [] of
           Answer (PyStr s) \<Rightarrow>
             if s \<noteq> [] \<and> is_dir w s
             then [Prompt [plugin_dir_input_question w] [(''plugin_dir'', PyStr s)],
                   Cookiecutter PluginTemplate (Some (PyStr s)) [(''plugin_name'', name)]]
             else [Prompt [plugin_dir_input_question w] [],
                   Secho (Plain ''Error Input!'') (Some Red) False]
         | _ \<Rightarrow> [Prompt [plugin_dir_input_question w] [],
                  Secho (Plain ''Error Input!'') (Some Red) False])\<rparr>)"
  unfolding choose_plugin_dir_other[OF assms] ask_plugin_dir_outcome
    plugin_dir_input_question_log is_dir_log
  by (simp add: log_def split: reply.splits pyval.splits)

lemma create_plugin_named:
  "truthy name \<Longrightarrow> create_plugin x name plugin_dir w = choose_plugin_dir x name plugin_dir w"
  by (simp add: create_plugin_def)

text \<open>
  C9. When \<^const>\<open>create_plugin\<close> has no plugin directory (\<^const>\<open>choose_plugin_dir\<close> is
  \<^verbatim>\<open>create_plugin\<close> from \<^verbatim>\<open>if not plugin_dir:\<close> on), the first thing it does is to show
  the list question whose choices are \<^const>\<open>detected\<close>: the walked paths that match
  \<^verbatim>\<open>**/plugins/\<close> and are directories, in walk order, followed by \<^verbatim>\<open>Other\<close>. As the walk
  yields each path once, every matching directory is there exactly once; nothing else is
  there but \<^verbatim>\<open>Other\<close>, once. Choosing \<^verbatim>\<open>Other\<close> leads to the \<^verbatim>\<open>Plugin Dir:\<close> input
  prompt, validated by \<^verbatim>\<open>len(x) > 0 and Path(x).is_dir()\<close>: the generator runs with the
  entered path only if it is a non-empty string that names an existing directory.
\<close>

theorem plugin_dir_choice_list:
  assumes "\<not> truthy plugin_dir" and "distinct (listing w)"
  shows "(truthy name \<longrightarrow>
            create_plugin x name plugin_dir w = choose_plugin_dir x name plugin_dir w)
       \<and> (\<exists>a es. snd (choose_plugin_dir x name plugin_dir w) =
             w\<lparr>trace := trace w @ Prompt [plugin_dir_list_question w] a # es\<rparr>)
       \<and> (\<exists>f. choices (plugin_dir_list_question w) = Some f
             \<and> (\<forall>ctx. f ctx = Inr (detected w)))
       \<and> detected w
           = filter (\<lambda>p. basename p = ''plugins'' \<and> is_dir w p) (listing w) @ [''Other'']
       \<and> (\<forall>p \<in> set (listing w).
             basename p = ''plugins'' \<and> is_dir w p \<longrightarrow> count_list (detected w) p = 1)
       \<and> (\<forall>p \<in> set (detected w).
             p = ''Other'' \<or> (p \<in> set (listing w) \<and> basename p = ''plugins'' \<and> is_dir w p))
       \<and> count_list (detected w) ''Other'' = 1
       \<and> (user x (plugin_dir_list_question w) [] = Answer (PyStr ''Other'') \<longrightarrow>
            choose_plugin_dir x name plugin_dir w =
              (Inr PyNone,
               w\<lparr>trace := trace w @
                 Prompt [plugin_dir_list_question w] [(''plugin_dir'', PyStr ''Other'')] #
                 (case user x (plugin_dir_input_question w) [] of
                    Answer (PyStr s) \<Rightarrow>
                      if s \<noteq> [] \<and> is_dir w s
                      then [Prompt [plugin_dir_input_question w] [(''plugin_dir'', PyStr s)],
                            Cookiecutter PluginTemplate (Some (PyStr s)) [(''plugin_name'', name)]]
                      else [Prompt [plugin_dir_input_question w] [],
                            Secho (Plain ''Error Input!'') (Some Red) False]
                  | _ \<Rightarrow> [Prompt [plugin_dir_input_question w] [],
                           Secho (Plain ''Error Input!'') (Some Red) False])\<rparr>))
       \<and> validate (plugin_dir_input_question w) = Some (\<lambda>s. length s > 0 \<and> is_dir w s)"
proof (intro conjI)
  show "truthy name \<longrightarrow>
          create_plugin x name plugin_dir w = choose_plugin_dir x name plugin_dir w"
    by (simp add: create_plugin_named)
  show "\<exists>a es. snd (choose_plugin_dir x name plugin_dir w) =
             w\<lparr>trace := trace w @ Prompt [plugin_dir_list_question w] a # es\<rparr>"
    using assms(1) by (rule choose_plugin_dir_presents)
  show "\<exists>f. choices (plugin_dir_list_question w) = Some f \<and> (\<forall>ctx. f ctx = Inr (detected w))"
    by (simp add: plugin_dir_list_question_def)
  show "detected w
          = filter (\<lambda>p. basename p = ''plugins'' \<and> is_dir w p) (listing w) @ [''Other'']"
    by (rule detected_eq)
  show "\<forall>p \<in> set (listing w).
          basename p = ''plugins'' \<and> is_dir w p \<longrightarrow> count_list (detected w) p = 1"
    using assms(2) detected_once by blast
  show "\<forall>p \<in> set (detected w).
          p = ''Other'' \<or> (p \<in> set (listing w) \<and> basename p = ''plugins'' \<and> is_dir w p)"
    using detected_only by blast
  show "count_list (detected w) ''Other'' = 1"
    using detected_other by blast
  show "user x (plugin_dir_list_question w) [] = Answer (PyStr ''Other'') \<longrightarrow>
            choose_plugin_dir x name plugin_dir w =
              (Inr PyNone,
               w\<lparr>trace := trace w @
                 Prompt [plugin_dir_list_question w] [(''plugin_dir'', PyStr ''Other'')] #
                 (case user x (plugin_dir_input_question w) [] of
                    Answer (PyStr s) \<Rightarrow>
                      if s \<noteq> [] \<and> is_dir w s
                      then [Prompt [plugin_dir_input_question w] [(''plugin_dir'', PyStr s)],
                            Cookiecutter PluginTemplate (Some (PyStr s)) [(''plugin_name'', name)]]
                      else [Prompt [plugin_dir_input_question w] [],
                            Secho (Plain ''Error Input!'') (Some Red) False]
                  | _ \<Rightarrow> [Prompt [plugin_dir_input_question w] [],
                           Secho (Plain ''Error Input!'') (Some Red) False])\<rparr>)"
    using choose_plugin_dir_other_outcome[OF assms(1)] by blast
  show "validate (plugin_dir_input_question w) = Some (\<lambda>s. length s > 0 \<and> is_dir w s)"
    by (simp add: plugin_dir_input_question_def)
qed

theorem plugin_dir_choice_list_witness:
  "detected (sample_world None) = [''src/plugins'', ''Other'']
   \<and> count_list (detected (sample_world None)) ''src/plugins'' = 1
   \<and> create_plugin (sample_ext 0 (Answer (PyStr ''Other'')) Map.empty) (PyStr ''demo'') PyNone
         (sample_world None)
     = (Inr PyNone,
        (sample_world None)\<lparr>trace :=
           [Prompt [plugin_dir_list_question (sample_world None)] [(''plugin_dir'', PyStr ''Other'')],
            Prompt [plugin_dir_input_question (sample_world None)] [],
            Secho (Plain ''Error Input!'') (Some Red) False]\<rparr>)"
  using plugin_dir_choice_list[of PyNone "sample_world None" "PyStr ''demo''"
      "sample_ext 0 (Answer (PyStr ''Other'')) Map.empty"]
  by (simp add: sample_world_def sample_ext_def is_dir_def basename_def)

end
